theory Spec2Isabelle
  imports Main "HOL-Library.Char_ord" "HOL-Library.List_Lexorder" "HOL-Library.Multiset"
    "HOL-Library.Sublist"
begin

section \<open>The book table and the manager that owns it\<close>

text \<open>
  \<^verbatim>\<open>book_manager.py\<close> wraps one SQLite table,
  \<^verbatim>\<open>books (id INTEGER PRIMARY KEY AUTOINCREMENT, title TEXT NOT NULL, author TEXT NOT NULL,
  year INTEGER, isbn TEXT UNIQUE, genre TEXT)\<close>.
  A row is the tuple \<^verbatim>\<open>(id, title, author, year, isbn, genre)\<close> that
  \<^verbatim>\<open>fetchone\<close> and \<^verbatim>\<open>fetchall\<close> hand back; the nullable columns are options
  (\<open>None\<close> is SQL NULL and Python \<^verbatim>\<open>None\<close>), the two NOT NULL columns are plain strings,
  following the type annotations of the methods (\<^verbatim>\<open>title: str\<close>, \<^verbatim>\<open>year: Optional[int]\<close>).
  A text is the list of its bytes, compared byte by byte. An integer is Python's, without
  bound; the table holds signed 64-bit integers only.
\<close>

record book =
  book_id :: int
  title :: string
  author :: string
  year :: "int option"
  isbn :: "string option"
  genre :: "string option"

text \<open>
  The exceptions the methods can meet, each with its message: of the \<^verbatim>\<open>sqlite3\<close> module,
  \<^verbatim>\<open>IntegrityError\<close> for a violated constraint, \<^verbatim>\<open>ProgrammingError\<close> for a statement
  executed on a closed connection and \<^verbatim>\<open>OperationalError\<close> for a statement the engine
  gives up on; and Python's own \<^verbatim>\<open>OverflowError\<close>, raised when an integer parameter
  does not fit into 64 bits. A method that lets an exception escape returns \<open>Inl\<close> of it;
  a normal return is \<open>Inr\<close>.
\<close>

datatype error =
    IntegrityError string
  | ProgrammingError string
  | OverflowError string
  | OperationalError string

text \<open>
  The state a \<^verbatim>\<open>BookManager\<close> works on: the rows of the table in rowid order, the
  counter SQLite keeps for an AUTOINCREMENT key (the largest id ever handed out, 0 for a
  table never inserted into), whether \<^verbatim>\<open>self.conn\<close> has been closed, and the lines the
  methods have printed to standard output. Every write is followed by
  \<^verbatim>\<open>self.conn.commit()\<close>, so the table is always the committed one. Texts of a
  gigabyte, memory and disk space are outside this model.
\<close>

record book_manager =
  books :: "book list"
  seq :: nat
  closed :: bool
  stdout :: "string list"

definition init :: book_manager where
  \<comment> \<open>\<^verbatim>\<open>__init__\<close> on a fresh file: connect, then CREATE TABLE IF NOT EXISTS.\<close>
  "init = \<lparr>books = [], seq = 0, closed = False, stdout = []\<rparr>"

subsection \<open>The statements, as SQLite executes them\<close>

definition closed_error :: error where
  "closed_error = ProgrammingError ''Cannot operate on a closed database.''"

definition unique_error :: error where
  "unique_error = IntegrityError ''UNIQUE constraint failed: books.isbn''"

definition overflow_error :: error where
  "overflow_error = OverflowError ''Python int too large to convert to SQLite INTEGER''"

definition full_error :: error where
  "full_error = OperationalError ''database or disk is full''"

definition like_error :: error where
  "like_error = OperationalError ''LIKE or GLOB pattern too complex''"

definition int64 :: "int \<Rightarrow> bool" where
  \<comment> \<open>The integers a parameter of a statement can carry.\<close>
  "int64 n = (- (2 ^ 63) \<le> n \<and> n < 2 ^ 63)"

definition bindable :: "int option \<Rightarrow> bool" where
  "bindable y = (case y of None \<Rightarrow> True | Some n \<Rightarrow> int64 n)"

definition next_rowid :: "book_manager \<Rightarrow> int" where
  \<comment> \<open>AUTOINCREMENT: one more than the largest id that ever existed in the table.\<close>
  "next_rowid s = fold max (map book_id (books s)) (int (seq s)) + 1"

definition isbn_taken :: "book list \<Rightarrow> string option \<Rightarrow> bool" where
  \<comment> \<open>UNIQUE on a nullable column: NULL never collides, a text collides with an equal text.\<close>
  "isbn_taken bs i = (case i of None \<Rightarrow> False | Some v \<Rightarrow> list_ex (\<lambda>r. isbn r = Some v) bs)"

text \<open>
  Every statement fails in the same order: on a closed connection before anything else,
  then on a parameter that cannot be bound, and only then on what the table holds.
\<close>

definition execute_insert ::
  "book_manager \<Rightarrow> string \<Rightarrow> string \<Rightarrow> int option \<Rightarrow> string option \<Rightarrow> string option
    \<Rightarrow> error + (book_manager \<times> int)" where
  \<comment> \<open>\<^verbatim>\<open>INSERT INTO books (title, author, year, isbn, genre) VALUES (?, ?, ?, ?, ?)\<close>;
      the second component is \<^verbatim>\<open>cursor.lastrowid\<close>. The id is chosen before the
      constraint is looked at, and there is none left after the largest 64-bit one.\<close>
  "execute_insert s t a y i g =
     (if closed s then Inl closed_error
      else if \<not> bindable y then Inl overflow_error
      else if \<not> int64 (next_rowid s) then Inl full_error
      else if isbn_taken (books s) i then Inl unique_error
      else let n = next_rowid s in
        Inr (s\<lparr>books := books s @
                 [\<lparr>book_id = n, title = t, author = a, year = y, isbn = i, genre = g\<rparr>],
               seq := nat n\<rparr>, n))"

definition execute_update ::
  "book_manager \<Rightarrow> string \<Rightarrow> string \<Rightarrow> int option \<Rightarrow> string option \<Rightarrow> string option \<Rightarrow> int
    \<Rightarrow> error + (book_manager \<times> nat)" where
  \<comment> \<open>\<^verbatim>\<open>UPDATE books SET title = ?, author = ?, year = ?, isbn = ?, genre = ? WHERE id = ?\<close>;
      the second component is \<^verbatim>\<open>cursor.rowcount\<close>. The statement fails as a whole when a
      row it writes would share its isbn with another row.\<close>
  "execute_update s t a y i g bid =
     (if closed s then Inl closed_error
      else if \<not> bindable y \<or> \<not> int64 bid then Inl overflow_error
      else if list_ex (\<lambda>r. book_id r = bid) (books s)
              \<and> isbn_taken (filter (\<lambda>r. book_id r \<noteq> bid) (books s)) i
      then Inl unique_error
      else Inr (s\<lparr>books := map (\<lambda>r. if book_id r = bid
                                     then r\<lparr>title := t, author := a, year := y, isbn := i, genre := g\<rparr>
                                     else r) (books s)\<rparr>,
                length (filter (\<lambda>r. book_id r = bid) (books s))))"

definition execute_delete :: "book_manager \<Rightarrow> int \<Rightarrow> error + (book_manager \<times> nat)" where
  \<comment> \<open>\<^verbatim>\<open>DELETE FROM books WHERE id = ?\<close>; the counter of the key is left alone.\<close>
  "execute_delete s bid =
     (if closed s then Inl closed_error
      else if \<not> int64 bid then Inl overflow_error
      else Inr (s\<lparr>books := filter (\<lambda>r. book_id r \<noteq> bid) (books s)\<rparr>,
                length (filter (\<lambda>r. book_id r = bid) (books s))))"

definition order_by_title :: "book list \<Rightarrow> book list" where
  \<comment> \<open>\<^verbatim>\<open>ORDER BY title\<close> under the default BINARY collation: bytewise, a prefix first.\<close>
  "order_by_title bs = sort_key title bs"

fun select_rows :: "(book \<Rightarrow> error + bool) \<Rightarrow> book list \<Rightarrow> error + book list" where
  \<comment> \<open>The WHERE clause is evaluated row by row; the first row on which it fails ends the
      statement.\<close>
  "select_rows w [] = Inr []"
| "select_rows w (r # rs) =
     (case w r of
        Inl e \<Rightarrow> Inl e
      | Inr keep \<Rightarrow>
          (case select_rows w rs of
             Inl e \<Rightarrow> Inl e
           | Inr out \<Rightarrow> Inr (if keep then r # out else out)))"

definition execute_select ::
  "book_manager \<Rightarrow> int list \<Rightarrow> (book \<Rightarrow> error + bool) \<Rightarrow> error + book list" where
  \<comment> \<open>\<^verbatim>\<open>SELECT * FROM books WHERE ...\<close> with its integer parameters, the rows in table
      order.\<close>
  "execute_select s params w =
     (if closed s then Inl closed_error
      else if \<not> list_all int64 params then Inl overflow_error
      else select_rows w (books s))"

text \<open>
  \<^verbatim>\<open>LIKE\<close> as SQLite compares: \<^verbatim>\<open>%\<close> stands for any run of characters, \<^verbatim>\<open>_\<close> for
  any one character, every other character for itself, upper and lower case of the
  ASCII letters taken as equal. There is no escape character unless the statement names
  one, and the statement of \<^verbatim>\<open>search_books\<close> names none. Pattern and text are both read
  up to their first NUL, and a pattern of more than 50000 bytes, the NUL and what follows
  it counted, is refused.
\<close>

definition ascii_lower :: "char \<Rightarrow> char" where
  "ascii_lower c =
     (if CHR ''A'' \<le> c \<and> c \<le> CHR ''Z'' then char_of (of_char c + (32::nat)) else c)"

fun like :: "string \<Rightarrow> string \<Rightarrow> bool" where
  "like [] s = (s = [])"
| "like (p # ps) [] = (p = CHR ''%'' \<and> like ps [])"
| "like (p # ps) (c # cs) =
     (if p = CHR ''%'' then like ps (c # cs) \<or> like (p # ps) cs
      else (p = CHR ''_'' \<or> ascii_lower p = ascii_lower c) \<and> like ps cs)"

definition until_nul :: "string \<Rightarrow> string" where
  "until_nul s = takeWhile (\<lambda>c. c \<noteq> CHR 0x00) s"

definition sql_like :: "string \<Rightarrow> string \<Rightarrow> error + bool" where
  \<comment> \<open>\<^verbatim>\<open>text LIKE pattern\<close>, pattern first.\<close>
  "sql_like pat str =
     (if 50000 < length pat then Inl like_error
      else Inr (like (until_nul pat) (until_nul str)))"

subsection \<open>The methods of \<^verbatim>\<open>BookManager\<close>\<close>

definition py_print :: "book_manager \<Rightarrow> string \<Rightarrow> book_manager" where
  "py_print s line = s\<lparr>stdout := stdout s @ [line]\<rparr>"

definition add_book ::
  "book_manager \<Rightarrow> string \<Rightarrow> string \<Rightarrow> int option \<Rightarrow> string option \<Rightarrow> string option
    \<Rightarrow> book_manager \<times> (error + int)" where
  \<comment> \<open>Only \<^verbatim>\<open>sqlite3.IntegrityError\<close> is caught; every other exception leaves the method.\<close>
  "add_book s t a y i g =
     (case execute_insert s t a y i g of
        Inr (s', lastrowid) \<Rightarrow> (s', Inr lastrowid)
      | Inl (IntegrityError e) \<Rightarrow> (py_print s (''Error: '' @ e), Inr (- 1))
      | Inl (ProgrammingError e) \<Rightarrow> (s, Inl (ProgrammingError e))
      | Inl (OverflowError e) \<Rightarrow> (s, Inl (OverflowError e))
      | Inl (OperationalError e) \<Rightarrow> (s, Inl (OperationalError e)))"

definition get_all_books :: "book_manager \<Rightarrow> error + book list" where
  "get_all_books s = map_sum (\<lambda>e. e) order_by_title (execute_select s [] (\<lambda>r. Inr True))"

definition get_book_by_id :: "book_manager \<Rightarrow> int \<Rightarrow> error + book option" where
  \<comment> \<open>\<^verbatim>\<open>fetchone\<close>: the first row of the result, \<^verbatim>\<open>None\<close> when there is none.\<close>
  "get_book_by_id s bid =
     map_sum (\<lambda>e. e) (\<lambda>rs. case rs of [] \<Rightarrow> None | r # _ \<Rightarrow> Some r)
       (execute_select s [bid] (\<lambda>r. Inr (book_id r = bid)))"

definition search_books :: "book_manager \<Rightarrow> string \<Rightarrow> error + book list" where
  "search_books s search_term =
     (let search_pattern = ''%'' @ search_term @ ''%'' in
      map_sum (\<lambda>e. e) order_by_title
        (execute_select s []
          (\<lambda>r. case sql_like search_pattern (title r) of
                  Inl e \<Rightarrow> Inl e
                | Inr in_title \<Rightarrow>
                    (case sql_like search_pattern (author r) of
                       Inl e \<Rightarrow> Inl e
                     | Inr in_author \<Rightarrow> Inr (in_title \<or> in_author)))))"

definition update_book ::
  "book_manager \<Rightarrow> int \<Rightarrow> string option \<Rightarrow> string option \<Rightarrow> int option \<Rightarrow> string option
    \<Rightarrow> string option \<Rightarrow> book_manager \<times> (error + bool)" where
  "update_book s bid t a y i g =
     (case get_book_by_id s bid of
        Inl e \<Rightarrow> (s, Inl e)
      | Inr None \<Rightarrow> (s, Inr False)
      | Inr (Some current_book) \<Rightarrow>
          let new_title = (case t of Some v \<Rightarrow> v | None \<Rightarrow> title current_book);
              new_author = (case a of Some v \<Rightarrow> v | None \<Rightarrow> author current_book);
              new_year = (case y of Some v \<Rightarrow> Some v | None \<Rightarrow> year current_book);
              new_isbn = (case i of Some v \<Rightarrow> Some v | None \<Rightarrow> isbn current_book);
              new_genre = (case g of Some v \<Rightarrow> Some v | None \<Rightarrow> genre current_book)
          in (case execute_update s new_title new_author new_year new_isbn new_genre bid of
                Inr (s', rowcount) \<Rightarrow> (s', Inr (rowcount > 0))
              | Inl (IntegrityError e) \<Rightarrow> (py_print s (''Error: '' @ e), Inr False)
              | Inl (ProgrammingError e) \<Rightarrow> (s, Inl (ProgrammingError e))
              | Inl (OverflowError e) \<Rightarrow> (s, Inl (OverflowError e))
              | Inl (OperationalError e) \<Rightarrow> (s, Inl (OperationalError e))))"

definition delete_book :: "book_manager \<Rightarrow> int \<Rightarrow> book_manager \<times> (error + bool)" where
  "delete_book s bid =
     (case execute_delete s bid of
        Inr (s', rowcount) \<Rightarrow> (s', Inr (rowcount > 0))
      | Inl e \<Rightarrow> (s, Inl e))"

definition get_books_by_genre :: "book_manager \<Rightarrow> string \<Rightarrow> error + book list" where
  \<comment> \<open>\<^verbatim>\<open>WHERE genre = ?\<close>: a NULL genre equals nothing, texts compare bytewise.\<close>
  "get_books_by_genre s g =
     map_sum (\<lambda>e. e) order_by_title (execute_select s [] (\<lambda>r. Inr (genre r = Some g)))"

definition close :: "book_manager \<Rightarrow> book_manager" where
  \<comment> \<open>\<^verbatim>\<open>self.conn\<close> is set by \<^verbatim>\<open>__init__\<close>, so the guard holds; closing twice is harmless.\<close>
  "close s = s\<lparr>closed := True\<rparr>"

subsection \<open>The table's key, and what search and update are meant to do\<close>

text \<open>The PRIMARY KEY of the table: no two rows share an id.\<close>

definition primary_key :: "book_manager \<Rightarrow> bool" where
  "primary_key s = distinct (map book_id (books s))"


text \<open>
  The row \<^verbatim>\<open>update_book\<close> is meant to write, in the words of its description: every
  field the caller leaves out keeps the value of the current row, every field the caller
  supplies takes the new value.
\<close>

definition merge_fields ::
  "book \<Rightarrow> string option \<Rightarrow> string option \<Rightarrow> int option \<Rightarrow> string option \<Rightarrow> string option
    \<Rightarrow> book" where
  "merge_fields cur t a y i g =
     \<lparr>book_id = book_id cur,
      title = (case t of None \<Rightarrow> title cur | Some v \<Rightarrow> v),
      author = (case a of None \<Rightarrow> author cur | Some v \<Rightarrow> v),
      year = (case y of None \<Rightarrow> year cur | Some v \<Rightarrow> Some v),
      isbn = (case i of None \<Rightarrow> isbn cur | Some v \<Rightarrow> Some v),
      genre = (case g of None \<Rightarrow> genre cur | Some v \<Rightarrow> Some v)\<rparr>"

subsection \<open>Example stores\<close>

text \<open>The stores of \<^verbatim>\<open>test_book_manager.py\<close>, each built by the calls the test makes.\<close>

definition shelf :: book_manager where
  "shelf =
     fst (add_book
       (fst (add_book
         (fst (add_book init ''Harry Potter'' ''J.K. Rowling'' (Some 1997) None None))
         ''The Hobbit'' ''J.R.R. Tolkien'' (Some 1937) None None))
       ''1984'' ''George Orwell'' (Some 1949) None None)"

definition genre_shelf :: book_manager where
  "genre_shelf =
     fst (add_book
       (fst (add_book
         (fst (add_book init ''Fantasy Book 1'' ''Author 1'' (Some 2020) None (Some ''Fantasy'')))
         ''Epic'' ''Author 2'' (Some 2021) None (Some ''Fantasy Fiction'')))
       ''Sci-Fi Book'' ''Author 3'' (Some 2022) None (Some ''fantasy''))"

definition one_book :: book_manager where
  "one_book =
     fst (add_book init ''Test Book'' ''Test Author'' (Some 2024) (Some ''978-1234567890'')
       (Some ''Test Genre''))"

definition two_books :: book_manager where
  "two_books =
     fst (add_book one_book ''Second Book'' ''Other Author'' None (Some ''978-0000000000'') None)"

definition original :: book_manager where
  "original = fst (add_book init ''Original Title'' ''Original Author'' (Some 2000) None None)"


section \<open>Properties\<close>

lemma sorted_order_by_title: "sorted (map title (order_by_title bs))"
  by (simp add: order_by_title_def)

lemma mset_order_by_title: "mset (order_by_title bs) = mset bs"
  by (simp add: order_by_title_def)

lemma select_rows_total: "select_rows (\<lambda>r. Inr (P r)) bs = Inr (filter P bs)"
  by (induction bs) simp_all

lemma execute_select_open:
  "\<not> closed s \<Longrightarrow> execute_select s [] (\<lambda>r. Inr (P r)) = Inr (filter P (books s))"
  by (simp add: execute_select_def select_rows_total)

lemma execute_select_closed: "closed s \<Longrightarrow> execute_select s ps w = Inl closed_error"
  by (simp add: execute_select_def)

lemma shelf_books:
  "shelf = \<lparr>books =
     [\<lparr>book_id = 1, title = ''Harry Potter'', author = ''J.K. Rowling'', year = Some 1997,
        isbn = None, genre = None\<rparr>,
      \<lparr>book_id = 2, title = ''The Hobbit'', author = ''J.R.R. Tolkien'', year = Some 1937,
        isbn = None, genre = None\<rparr>,
      \<lparr>book_id = 3, title = ''1984'', author = ''George Orwell'', year = Some 1949,
        isbn = None, genre = None\<rparr>], seq = 3, closed = False, stdout = []\<rparr>"
  by (simp add: shelf_def add_book_def execute_insert_def init_def isbn_taken_def next_rowid_def bindable_def int64_def)

lemma genre_shelf_books:
  "genre_shelf = \<lparr>books =
     [\<lparr>book_id = 1, title = ''Fantasy Book 1'', author = ''Author 1'', year = Some 2020,
        isbn = None, genre = Some ''Fantasy''\<rparr>,
      \<lparr>book_id = 2, title = ''Epic'', author = ''Author 2'', year = Some 2021,
        isbn = None, genre = Some ''Fantasy Fiction''\<rparr>,
      \<lparr>book_id = 3, title = ''Sci-Fi Book'', author = ''Author 3'', year = Some 2022,
        isbn = None, genre = Some ''fantasy''\<rparr>], seq = 3, closed = False, stdout = []\<rparr>"
  by (simp add: genre_shelf_def add_book_def execute_insert_def init_def isbn_taken_def next_rowid_def bindable_def int64_def)

text \<open>
  Claim C8. On an open store \<^verbatim>\<open>get_all_books\<close> returns every row of the table, each as
  often as the table holds it, in ascending order of title; on the empty store it returns
  the empty list and no error; after adding ``Harry Potter'', ``The Hobbit'' and ``1984''
  the titles come back as ``1984'', ``Harry Potter'', ``The Hobbit''.
\<close>

theorem get_all_books_sorted:
  "(\<not> closed s \<longrightarrow>
      (\<exists>rs. get_all_books s = Inr rs \<and> mset rs = mset (books s) \<and> sorted (map title rs)))
   \<and> get_all_books init = Inr []
   \<and> map_sum (\<lambda>e. e) (map title) (get_all_books shelf)
       = Inr [''1984'', ''Harry Potter'', ''The Hobbit'']"
proof (intro conjI impI)
  assume "\<not> closed s"
  then have "get_all_books s = Inr (order_by_title (books s))"
    by (simp add: get_all_books_def execute_select_open)
  then show "\<exists>rs. get_all_books s = Inr rs \<and> mset rs = mset (books s) \<and> sorted (map title rs)"
    by (simp add: sorted_order_by_title mset_order_by_title)
next
  show "get_all_books init = Inr []"
    by (simp add: get_all_books_def execute_select_def init_def order_by_title_def)
next
  show "map_sum (\<lambda>e. e) (map title) (get_all_books shelf)
       = Inr [''1984'', ''Harry Potter'', ''The Hobbit'']"
    by (simp add: shelf_books get_all_books_def execute_select_def order_by_title_def)
qed

theorem get_all_books_sorted_witness:
  "\<not> closed shelf \<and> (\<exists>rs. get_all_books shelf = Inr rs \<and> length rs = 3 \<and> sorted (map title rs))"
proof -
  have o: "\<not> closed shelf" by (simp add: shelf_books)
  from get_all_books_sorted [of shelf] o
  obtain rs where "get_all_books shelf = Inr rs" "mset rs = mset (books shelf)" "sorted (map title rs)"
    by blast
  moreover from this have "length rs = 3" 
    using mset_eq_length [of rs "books shelf"] by (simp add: shelf_books)
  ultimately show ?thesis using o by blast
qed


text \<open>
  Claim C9. On an open store \<^verbatim>\<open>get_books_by_genre g\<close> returns exactly the rows whose
  genre is the text \<open>g\<close> itself (equality of strings, so case matters and a longer genre
  does not count), in ascending order of title; among the genres ``Fantasy'',
  ``Fantasy Fiction'' and ``fantasy'' a query for ``Fantasy'' returns the first row only.
\<close>

theorem get_books_by_genre_exact:
  "(\<not> closed s \<longrightarrow>
      (\<exists>rs. get_books_by_genre s g = Inr rs
         \<and> mset rs = mset (filter (\<lambda>r. genre r = Some g) (books s))
         \<and> sorted (map title rs)))
   \<and> map_sum (\<lambda>e. e) (map title) (get_books_by_genre genre_shelf ''Fantasy'')
       = Inr [''Fantasy Book 1'']"
proof (intro conjI impI)
  assume "\<not> closed s"
  then have "get_books_by_genre s g = Inr (order_by_title (filter (\<lambda>r. genre r = Some g) (books s)))"
    by (simp add: get_books_by_genre_def execute_select_open)
  then show "\<exists>rs. get_books_by_genre s g = Inr rs
         \<and> mset rs = mset (filter (\<lambda>r. genre r = Some g) (books s))
         \<and> sorted (map title rs)"
    by (simp add: sorted_order_by_title mset_order_by_title)
next
  show "map_sum (\<lambda>e. e) (map title) (get_books_by_genre genre_shelf ''Fantasy'')
       = Inr [''Fantasy Book 1'']"
    by (simp add: genre_shelf_books get_books_by_genre_def execute_select_def order_by_title_def)
qed

theorem get_books_by_genre_exact_witness:
  "\<not> closed genre_shelf \<and>
   (\<exists>rs. get_books_by_genre genre_shelf ''Fantasy Fiction'' = Inr rs \<and> map book_id rs = [2])"
proof -
  have o: "\<not> closed genre_shelf" by (simp add: genre_shelf_books)
  from get_books_by_genre_exact [of genre_shelf "''Fantasy Fiction''"] o
  obtain rs where rs: "get_books_by_genre genre_shelf ''Fantasy Fiction'' = Inr rs"
    by blast
  then have "map book_id rs = [2]"
    by (auto simp add: genre_shelf_books get_books_by_genre_def execute_select_def order_by_title_def)
  with rs o show ?thesis by simp
qed


text \<open>
  Claim C5. After \<^verbatim>\<open>close\<close> each of the seven operations fails with the
  \<^verbatim>\<open>ProgrammingError\<close> ``Cannot operate on a closed database.'' and leaves the manager
  as it was, closed; so does every operation after it.
\<close>

theorem closed_store_fails:
  "closed (close s)
   \<and> close (close s) = close s
   \<and> add_book (close s) t a y i g = (close s, Inl closed_error)
   \<and> get_all_books (close s) = Inl closed_error
   \<and> get_book_by_id (close s) bid = Inl closed_error
   \<and> search_books (close s) term = Inl closed_error
   \<and> update_book (close s) bid t' a' y i g = (close s, Inl closed_error)
   \<and> delete_book (close s) bid = (close s, Inl closed_error)
   \<and> get_books_by_genre (close s) gn = Inl closed_error"
  by (simp add: close_def add_book_def execute_insert_def get_all_books_def execute_select_def
      get_book_by_id_def search_books_def update_book_def delete_book_def execute_delete_def
      get_books_by_genre_def closed_error_def)

lemma fold_max_ge: "(a::int) \<le> fold max xs a"
  by (induction xs arbitrary: a) (auto intro: order_trans [OF max.cobounded2])

lemma fold_max_mem: "x \<in> set xs \<Longrightarrow> (x::int) \<le> fold max xs a"
proof (induction xs arbitrary: a)
  case Nil
  then show ?case by simp
next
  case (Cons y ys)
  show ?case
  proof (cases "x = y")
    case True
    have "max y a \<le> fold max ys (max y a)" by (rule fold_max_ge)
    with True show ?thesis by simp
  next
    case False
    with Cons show ?thesis by simp
  qed
qed

lemma next_rowid_pos: "1 \<le> next_rowid s"
  using fold_max_ge [of "int (seq s)" "map book_id (books s)"] by (simp add: next_rowid_def)

lemma next_rowid_fresh: "r \<in> set (books s) \<Longrightarrow> book_id r < next_rowid s"
  using fold_max_mem [of "book_id r" "map book_id (books s)" "int (seq s)"]
  by (simp add: next_rowid_def)

lemma add_book_closed:
  "closed s \<Longrightarrow> add_book s t a y i g = (s, Inl closed_error)"
  by (simp add: add_book_def execute_insert_def closed_error_def)

lemma add_book_overflow:
  "\<not> closed s \<Longrightarrow> \<not> bindable y \<Longrightarrow> add_book s t a y i g = (s, Inl overflow_error)"
  by (simp add: add_book_def execute_insert_def overflow_error_def)

lemma add_book_full:
  "\<not> closed s \<Longrightarrow> bindable y \<Longrightarrow> \<not> int64 (next_rowid s)
   \<Longrightarrow> add_book s t a y i g = (s, Inl full_error)"
  by (simp add: add_book_def execute_insert_def full_error_def)

lemma add_book_rejected:
  assumes "\<not> closed s" "bindable y" "int64 (next_rowid s)" "isbn_taken (books s) i"
  shows "add_book s t a y i g =
    (py_print s ''Error: UNIQUE constraint failed: books.isbn'', Inr (- 1))"
  using assms by (simp add: add_book_def execute_insert_def unique_error_def)

lemma add_book_inserted:
  assumes "\<not> closed s" "bindable y" "int64 (next_rowid s)" "\<not> isbn_taken (books s) i"
  shows "add_book s t a y i g =
    (s\<lparr>books := books s @ [\<lparr>book_id = next_rowid s, title = t, author = a, year = y,
                              isbn = i, genre = g\<rparr>],
       seq := nat (next_rowid s)\<rparr>, Inr (next_rowid s))"
  using assms by (simp add: add_book_def execute_insert_def Let_def)

lemma add_book_outcomes:
  "add_book s t a y i g =
    (if closed s then (s, Inl closed_error)
     else if \<not> bindable y then (s, Inl overflow_error)
     else if \<not> int64 (next_rowid s) then (s, Inl full_error)
     else if isbn_taken (books s) i
       then (py_print s ''Error: UNIQUE constraint failed: books.isbn'', Inr (- 1))
     else (s\<lparr>books := books s @ [\<lparr>book_id = next_rowid s, title = t, author = a, year = y,
                              isbn = i, genre = g\<rparr>],
       seq := nat (next_rowid s)\<rparr>, Inr (next_rowid s)))"
  by (simp add: add_book_closed add_book_overflow add_book_full add_book_rejected
      add_book_inserted)

lemma get_book_by_id_outcomes:
  "get_book_by_id s bid =
    (if closed s then Inl closed_error
     else if \<not> int64 bid then Inl overflow_error
     else Inr (case filter (\<lambda>r. book_id r = bid) (books s) of [] \<Rightarrow> None | r # _ \<Rightarrow> Some r))"
  by (simp add: get_book_by_id_def execute_select_def select_rows_total)

lemma get_book_by_id_appended:
  assumes "\<not> closed s" "int64 (book_id b)" "\<forall>r \<in> set (books s). book_id r \<noteq> book_id b"
  shows "get_book_by_id (s\<lparr>books := books s @ [b], seq := k\<rparr>) (book_id b) = Inr (Some b)"
proof -
  from assms(3) have "filter (\<lambda>r. book_id r = book_id b) (books s) = []"
    by (simp add: filter_empty_conv)
  with assms(1,2) show ?thesis
    by (simp add: get_book_by_id_outcomes)
qed

lemma get_book_by_id_found:
  assumes "get_book_by_id s bid = Inr (Some cur)"
  shows "\<not> closed s" and "cur \<in> set (books s)" and "book_id cur = bid"
    and "\<exists>rest. filter (\<lambda>r. book_id r = bid) (books s) = cur # rest" and "int64 bid"
proof -
  from assms show o: "\<not> closed s" and i: "int64 bid"
    by (auto simp: get_book_by_id_outcomes split: if_splits)
  with assms show f: "\<exists>rest. filter (\<lambda>r. book_id r = bid) (books s) = cur # rest"
    by (auto simp: get_book_by_id_outcomes split: list.splits)
  then obtain rest where "filter (\<lambda>r. book_id r = bid) (books s) = cur # rest" by blast
  then have "cur \<in> set (filter (\<lambda>r. book_id r = bid) (books s))" by simp
  then show "cur \<in> set (books s)" and "book_id cur = bid" by simp_all
qed

lemma get_book_by_id_missing:
  assumes "\<not> closed s" "int64 bid" "\<forall>r \<in> set (books s). book_id r \<noteq> bid"
  shows "get_book_by_id s bid = Inr None"
proof -
  from assms(3) have "filter (\<lambda>r. book_id r = bid) (books s) = []"
    by (simp add: filter_empty_conv)
  with assms(1,2) show ?thesis by (simp add: get_book_by_id_outcomes)
qed

lemma write_fields_eq_merge:
  assumes "book_id r = book_id cur"
  shows "r\<lparr>title := (case t of Some v \<Rightarrow> v | None \<Rightarrow> title cur),
           author := (case a of Some v \<Rightarrow> v | None \<Rightarrow> author cur),
           year := (case y of Some v \<Rightarrow> Some v | None \<Rightarrow> year cur),
           isbn := (case i of Some v \<Rightarrow> Some v | None \<Rightarrow> isbn cur),
           genre := (case g of Some v \<Rightarrow> Some v | None \<Rightarrow> genre cur)\<rparr>
         = merge_fields cur t a y i g"
  using assms by (cases r) (simp add: merge_fields_def)

lemma isbn_merge_fields:
  "isbn (merge_fields cur t a y i g) = (case i of Some v \<Rightarrow> Some v | None \<Rightarrow> isbn cur)"
  by (simp add: merge_fields_def)

lemma year_merge_fields:
  "year (merge_fields cur t a y i g) = (case y of Some v \<Rightarrow> Some v | None \<Rightarrow> year cur)"
  by (simp add: merge_fields_def)

lemma update_book_found:
  assumes "get_book_by_id s bid = Inr (Some cur)"
  shows "update_book s bid t a y i g =
    (if \<not> bindable (year (merge_fields cur t a y i g)) then (s, Inl overflow_error)
     else if isbn_taken (filter (\<lambda>r. book_id r \<noteq> bid) (books s))
               (isbn (merge_fields cur t a y i g))
     then (py_print s ''Error: UNIQUE constraint failed: books.isbn'', Inr False)
     else (s\<lparr>books := map (\<lambda>r. if book_id r = bid then merge_fields cur t a y i g else r)
                          (books s)\<rparr>, Inr True))"
proof -
  note f = get_book_by_id_found [OF assms]
  from f(4) have ex: "list_ex (\<lambda>r. book_id r = bid) (books s)"
    and len: "0 < length (filter (\<lambda>r. book_id r = bid) (books s))"
    by (auto simp: list_ex_iff filter_eq_Cons_iff)
  have m: "(\<lambda>r. if book_id r = bid
            then r\<lparr>title := (case t of Some v \<Rightarrow> v | None \<Rightarrow> title cur),
                   author := (case a of Some v \<Rightarrow> v | None \<Rightarrow> author cur),
                   year := (case y of Some v \<Rightarrow> Some v | None \<Rightarrow> year cur),
                   isbn := (case i of Some v \<Rightarrow> Some v | None \<Rightarrow> isbn cur),
                   genre := (case g of Some v \<Rightarrow> Some v | None \<Rightarrow> genre cur)\<rparr>
            else r)
      = (\<lambda>r. if book_id r = bid then merge_fields cur t a y i g else r)"
    using f(3) by (auto simp: fun_eq_iff write_fields_eq_merge)
  show ?thesis
    using assms f(1) f(5) ex len
    by (simp add: update_book_def execute_update_def Let_def m isbn_merge_fields
        year_merge_fields unique_error_def overflow_error_def)
qed

lemma update_book_closed: "closed s \<Longrightarrow> update_book s bid t a y i g = (s, Inl closed_error)"
  by (simp add: update_book_def get_book_by_id_outcomes)

lemma update_book_bad_id:
  "\<not> closed s \<Longrightarrow> \<not> int64 bid \<Longrightarrow> update_book s bid t a y i g = (s, Inl overflow_error)"
  by (simp add: update_book_def get_book_by_id_outcomes)

lemma update_book_missing:
  assumes "\<not> closed s" "int64 bid" "\<forall>r \<in> set (books s). book_id r \<noteq> bid"
  shows "update_book s bid t a y i g = (s, Inr False)"
  using get_book_by_id_missing [OF assms] by (simp add: update_book_def)

lemma get_book_by_id_updated:
  assumes "get_book_by_id s bid = Inr (Some cur)" and "book_id m = bid"
  shows "get_book_by_id (s\<lparr>books := map (\<lambda>r. if book_id r = bid then m else r) (books s)\<rparr>) bid
    = Inr (Some m)"
proof -
  note f = get_book_by_id_found [OF assms(1)]
  let ?f = "\<lambda>r. if book_id r = bid then m else r"
  have "filter (\<lambda>r. book_id r = bid) (map ?f bs)
      = map ?f (filter (\<lambda>r. book_id r = bid) bs)" for bs
    using assms(2) by (induction bs) auto
  with f(4) obtain rest where
    "filter (\<lambda>r. book_id r = bid) (map ?f (books s)) = m # rest"
    using f(3) by auto
  with f(1) f(5) show ?thesis
    by (simp add: get_book_by_id_outcomes)
qed

lemma update_book_books:
  "books (fst (update_book s bid t a y i g)) = books s
   \<or> (\<exists>cur. get_book_by_id s bid = Inr (Some cur)
        \<and> books (fst (update_book s bid t a y i g))
            = map (\<lambda>r. if book_id r = bid then merge_fields cur t a y i g else r) (books s))"
proof (cases "get_book_by_id s bid")
  case (Inl e)
  then show ?thesis by (simp add: update_book_def)
next
  case (Inr found)
  show ?thesis
  proof (cases found)
    case None
    with Inr show ?thesis by (simp add: update_book_def)
  next
    case (Some cur)
    with Inr have g: "get_book_by_id s bid = Inr (Some cur)" by simp
    show ?thesis using g update_book_found [OF g, of t a y i g] by (simp add: py_print_def)
  qed
qed

lemma one_book_books:
  "one_book = \<lparr>books = [\<lparr>book_id = 1, title = ''Test Book'', author = ''Test Author'',
      year = Some 2024, isbn = Some ''978-1234567890'', genre = Some ''Test Genre''\<rparr>],
      seq = 1, closed = False, stdout = []\<rparr>"
  by (simp add: one_book_def add_book_def execute_insert_def init_def isbn_taken_def
      next_rowid_def bindable_def int64_def)

lemma two_books_books:
  "two_books = \<lparr>books =
     [\<lparr>book_id = 1, title = ''Test Book'', author = ''Test Author'', year = Some 2024,
        isbn = Some ''978-1234567890'', genre = Some ''Test Genre''\<rparr>,
      \<lparr>book_id = 2, title = ''Second Book'', author = ''Other Author'', year = None,
        isbn = Some ''978-0000000000'', genre = None\<rparr>],
      seq = 2, closed = False, stdout = []\<rparr>"
  by (simp add: two_books_def one_book_books add_book_def execute_insert_def isbn_taken_def
      next_rowid_def bindable_def int64_def)

lemma original_books:
  "original = \<lparr>books = [\<lparr>book_id = 1, title = ''Original Title'', author = ''Original Author'',
      year = Some 2000, isbn = None, genre = None\<rparr>],
      seq = 1, closed = False, stdout = []\<rparr>"
  by (simp add: original_def add_book_def execute_insert_def init_def isbn_taken_def
      next_rowid_def bindable_def int64_def)

lemma original_get:
  "get_book_by_id original 1 = Inr (Some \<lparr>book_id = 1, title = ''Original Title'',
      author = ''Original Author'', year = Some 2000, isbn = None, genre = None\<rparr>)"
  by (simp add: original_books get_book_by_id_outcomes int64_def)


lemma primary_key_unique:
  assumes "primary_key s" "r \<in> set (books s)" "r' \<in> set (books s)" "book_id r = book_id r'"
  shows "r = r'"
proof -
  from assms(1) have "inj_on book_id (set (books s))"
    by (simp add: primary_key_def distinct_map)
  with assms(2-4) show ?thesis by (auto dest: inj_onD)
qed

lemma merge_fields_keeps:
  "book_id (merge_fields cur t a y i g) = book_id cur"
  "year cur \<noteq> None \<Longrightarrow> year (merge_fields cur t a y i g) \<noteq> None"
  "isbn cur \<noteq> None \<Longrightarrow> isbn (merge_fields cur t a y i g) \<noteq> None"
  "genre cur \<noteq> None \<Longrightarrow> genre (merge_fields cur t a y i g) \<noteq> None"
  by (auto simp: merge_fields_def split: option.splits)


text \<open>
  Claim C10. In a table whose ids are distinct (the primary key), whatever the arguments
  of \<^verbatim>\<open>update_book\<close>, the table afterwards has the same rows in the same places with the
  same ids, and a year, isbn or genre that held a value before still holds one: \<open>None\<close>
  as an argument means ``keep'', so no call clears a field. Title and author are never
  null by their type.
\<close>

theorem update_book_never_clears:
  assumes "primary_key s"
  shows "list_all2 (\<lambda>b b'. book_id b' = book_id b
            \<and> (year b \<noteq> None \<longrightarrow> year b' \<noteq> None)
            \<and> (isbn b \<noteq> None \<longrightarrow> isbn b' \<noteq> None)
            \<and> (genre b \<noteq> None \<longrightarrow> genre b' \<noteq> None))
          (books s) (books (fst (update_book s bid t a y i g)))"
proof -
  let ?keeps = "\<lambda>b b'. book_id b' = book_id b
            \<and> (year b \<noteq> None \<longrightarrow> year b' \<noteq> None)
            \<and> (isbn b \<noteq> None \<longrightarrow> isbn b' \<noteq> None)
            \<and> (genre b \<noteq> None \<longrightarrow> genre b' \<noteq> None)"
  have same: "list_all2 ?keeps (books s) (books s)"
    by (simp add: list_all2_same)
  from update_book_books [of s bid t a y i g]
  consider "books (fst (update_book s bid t a y i g)) = books s"
    | cur where "get_book_by_id s bid = Inr (Some cur)"
        "books (fst (update_book s bid t a y i g))
          = map (\<lambda>r. if book_id r = bid then merge_fields cur t a y i g else r) (books s)"
    by blast
  then show ?thesis
  proof cases
    case 1
    with same show ?thesis by simp
  next
    case (2 cur)
    note f = get_book_by_id_found [OF 2(1)]
    have "?keeps r (if book_id r = bid then merge_fields cur t a y i g else r)"
      if "r \<in> set (books s)" for r
    proof (cases "book_id r = bid")
      case True
      with f(3) have "book_id r = book_id cur" by simp
      with assms that f(2) have "r = cur" by (rule primary_key_unique)
      with True show ?thesis by (simp add: merge_fields_keeps)
    next
      case False
      then show ?thesis by simp
    qed
    then show ?thesis
      unfolding 2(2) by (simp add: list_all2_map2 list_all2_same)
  qed
qed

theorem update_book_never_clears_witness:
  "primary_key one_book
   \<and> books (fst (update_book one_book 1 None None None None None)) = books one_book
   \<and> map year (books (fst (update_book one_book 1 (Some ''New'') None None None None)))
      = [Some 2024]"
proof -
  have pk: "primary_key one_book" by (simp add: primary_key_def one_book_books)
  have g: "get_book_by_id one_book 1 = Inr (Some (hd (books one_book)))"
    by (simp add: one_book_books get_book_by_id_outcomes int64_def)
  have u: "books (fst (update_book one_book 1 None None None None None)) = books one_book"
    by (simp add: update_book_found [OF g] isbn_merge_fields year_merge_fields)
       (simp add: one_book_books isbn_taken_def merge_fields_def bindable_def int64_def)
  from update_book_never_clears [OF pk, of 1 "Some ''New''" None None None None]
  have "year (hd (books (fst (update_book one_book 1 (Some ''New'') None None None None)))) \<noteq> None"
    by (auto simp: one_book_books list_all2_Cons1)
  moreover have "map year (books (fst (update_book one_book 1 (Some ''New'') None None None None)))
      = [Some 2024]"
    by (simp add: update_book_found [OF g] isbn_merge_fields year_merge_fields)
       (simp add: one_book_books isbn_taken_def merge_fields_def bindable_def int64_def)
  ultimately show ?thesis using pk u by simp
qed


lemma primary_key_init: "primary_key init"
  by (simp add: primary_key_def init_def)

lemma primary_key_add_book:
  assumes "primary_key s"
  shows "primary_key (fst (add_book s t a y i g))"
proof -
  have "next_rowid s \<notin> book_id ` set (books s)"
    using next_rowid_fresh [of _ s] by fastforce
  with assms show ?thesis
    by (simp add: add_book_outcomes primary_key_def py_print_def)
qed

lemma update_book_ids:
  "map book_id (books (fst (update_book s bid t a y i g))) = map book_id (books s)"
proof -
  from update_book_books [of s bid t a y i g]
  consider "books (fst (update_book s bid t a y i g)) = books s"
    | cur where "get_book_by_id s bid = Inr (Some cur)"
        "books (fst (update_book s bid t a y i g))
          = map (\<lambda>r. if book_id r = bid then merge_fields cur t a y i g else r) (books s)"
    by blast
  then show ?thesis
  proof cases
    case 1
    then show ?thesis by simp
  next
    case (2 cur)
    from get_book_by_id_found(3) [OF 2(1)] show ?thesis
      unfolding 2(2) by (simp add: merge_fields_keeps(1))
  qed
qed

lemma primary_key_update_book:
  assumes "primary_key s"
  shows "primary_key (fst (update_book s bid t a y i g))"
  using assms by (simp add: primary_key_def update_book_ids)

lemma primary_key_delete_book:
  assumes "primary_key s"
  shows "primary_key (fst (delete_book s bid))"
  using assms
  by (simp add: delete_book_def execute_delete_def primary_key_def distinct_map_filter)

text \<open>
  Claim C7. Whenever \<^verbatim>\<open>add_book\<close> returns an integer, that integer is \<open>- 1\<close> exactly when
  the isbn is taken and the row is refused; whenever it is not \<open>- 1\<close> it is the id handed
  out, at least 1, and \<^verbatim>\<open>get_book_by_id\<close> on it yields the row with exactly the title,
  author, year, isbn and genre that were passed, an omitted one being \<open>None\<close>. And an id
  is returned: on an open store that has an id left to hand out, for a year that is
  absent or fits into 64 bits and an isbn that is absent or not yet in the table.
\<close>

theorem add_then_get_book_by_id:
  "(add_book s t a y i g = (s', Inr n) \<longrightarrow>
      (n = - 1 \<longleftrightarrow> isbn_taken (books s) i)
      \<and> (n \<noteq> - 1 \<longrightarrow> 1 \<le> n \<and> get_book_by_id s' n
            = Inr (Some \<lparr>book_id = n, title = t, author = a, year = y, isbn = i, genre = g\<rparr>)))
   \<and> (\<not> closed s \<and> bindable y \<and> int64 (next_rowid s) \<and> \<not> isbn_taken (books s) i \<longrightarrow>
        (\<exists>s'' m. add_book s t a y i g = (s'', Inr m) \<and> m \<noteq> - 1))"
proof -
  let ?b = "\<lparr>book_id = next_rowid s, title = t, author = a, year = y, isbn = i, genre = g\<rparr>"
  have pos: "1 \<le> next_rowid s" by (rule next_rowid_pos)
  have returned: "(n = - 1 \<longleftrightarrow> isbn_taken (books s) i)
      \<and> (n \<noteq> - 1 \<longrightarrow> 1 \<le> n \<and> get_book_by_id s' n
            = Inr (Some \<lparr>book_id = n, title = t, author = a, year = y, isbn = i, genre = g\<rparr>))"
    if r: "add_book s t a y i g = (s', Inr n)"
  proof (cases "isbn_taken (books s) i")
    case True
    with r show ?thesis
      by (auto simp: add_book_outcomes split: if_splits)
  next
    case False
    from r have ok: "\<not> closed s" "bindable y" "int64 (next_rowid s)"
      by (auto simp: add_book_outcomes split: if_splits)
    from r False have n: "n = next_rowid s"
      and s': "s' = s\<lparr>books := books s @ [?b], seq := nat (next_rowid s)\<rparr>"
      by (auto simp: add_book_inserted [OF ok])
    have "\<forall>r \<in> set (books s). book_id r \<noteq> book_id ?b"
      using next_rowid_fresh [of _ s] by fastforce
    with ok(1) ok(3)
    have "get_book_by_id (s\<lparr>books := books s @ [?b], seq := nat (next_rowid s)\<rparr>) (book_id ?b)
        = Inr (Some ?b)"
      by (intro get_book_by_id_appended) simp_all
    with n s' pos False show ?thesis by simp
  qed
  have total: "\<exists>s'' m. add_book s t a y i g = (s'', Inr m) \<and> m \<noteq> - 1"
    if "\<not> closed s \<and> bindable y \<and> int64 (next_rowid s) \<and> \<not> isbn_taken (books s) i"
    using that pos by (simp add: add_book_inserted)
  from returned total show ?thesis by blast
qed

theorem add_then_get_book_by_id_witness:
  "\<not> closed one_book \<and> bindable None \<and> int64 (next_rowid one_book)
   \<and> \<not> isbn_taken (books one_book) None
   \<and> add_book one_book ''Plain'' ''Nobody'' None None None
      = (one_book\<lparr>books := books one_book @
            [\<lparr>book_id = 2, title = ''Plain'', author = ''Nobody'', year = None, isbn = None,
              genre = None\<rparr>], seq := 2\<rparr>, Inr 2)
   \<and> get_book_by_id (fst (add_book one_book ''Plain'' ''Nobody'' None None None)) 2
      = Inr (Some \<lparr>book_id = 2, title = ''Plain'', author = ''Nobody'', year = None,
                   isbn = None, genre = None\<rparr>)"
proof -
  have h: "\<not> closed one_book" "bindable None" "int64 (next_rowid one_book)"
    "\<not> isbn_taken (books one_book) None"
    by (simp_all add: one_book_books isbn_taken_def bindable_def next_rowid_def int64_def)
  have a: "add_book one_book ''Plain'' ''Nobody'' None None None
      = (one_book\<lparr>books := books one_book @
            [\<lparr>book_id = 2, title = ''Plain'', author = ''Nobody'', year = None, isbn = None,
              genre = None\<rparr>], seq := 2\<rparr>, Inr 2)"
    by (simp add: add_book_inserted [OF h]) (simp add: one_book_books next_rowid_def)
  from add_then_get_book_by_id [of one_book "''Plain''" "''Nobody''" None None None _ 2] a
  have "get_book_by_id (fst (add_book one_book ''Plain'' ''Nobody'' None None None)) 2
      = Inr (Some \<lparr>book_id = 2, title = ''Plain'', author = ''Nobody'', year = None,
                   isbn = None, genre = None\<rparr>)"
    by simp
  with h a show ?thesis by simp
qed

text \<open>
  Claim C3, as the code has it. On an open store, \<^verbatim>\<open>update_book\<close> with an id that fits
  into 64 bits and that no row has returns \<^verbatim>\<open>False\<close>, the method's answer for a book that
  is not there, and the manager, its table included, is exactly as before. With an id that
  does not fit, the lookup raises \<^verbatim>\<open>OverflowError\<close>, which reaches the caller; the
  manager is as before then too.
\<close>

theorem update_book_not_found:
  "(\<not> closed s \<and> int64 bid \<and> (\<forall>r \<in> set (books s). book_id r \<noteq> bid) \<longrightarrow>
      update_book s bid t a y i g = (s, Inr False))
   \<and> (\<not> closed s \<and> \<not> int64 bid \<longrightarrow> update_book s bid t a y i g = (s, Inl overflow_error))"
  by (simp add: update_book_missing update_book_bad_id)

theorem update_book_not_found_witness:
  "\<not> closed shelf \<and> int64 7 \<and> map book_id (books shelf) = [1, 2, 3]
   \<and> update_book shelf 7 (Some ''Updated Title'') None (Some 2024) None None = (shelf, Inr False)
   \<and> \<not> int64 (- 9223372036854775809)
   \<and> update_book shelf (- 9223372036854775809) None None None None None
       = (shelf, Inl overflow_error)"
proof -
  have h: "\<not> closed shelf" "int64 7" "\<forall>r \<in> set (books shelf). book_id r \<noteq> 7"
    "\<not> int64 (- 9223372036854775809)"
    by (simp_all add: shelf_books int64_def)
  have "map book_id (books shelf) = [1, 2, 3]"
    by (simp add: shelf_books)
  with update_book_not_found [of shelf 7 "Some ''Updated Title''" None "Some 2024" None None]
    update_book_not_found [of shelf "- 9223372036854775809" None None None None None] h
  show ?thesis by simp
qed

text \<open>
  Claim C3 as stated fails for an id beyond the 64-bit range: no row has it, and the
  method raises \<^verbatim>\<open>OverflowError\<close> where the claim has it return the not-found answer.
\<close>

theorem update_book_not_found_counterexample:
  "map book_id (books shelf) = [1, 2, 3]
   \<and> update_book shelf 9223372036854775808 (Some ''Updated Title'') None (Some 2024) None None
       = (shelf, Inl overflow_error)"
proof -
  have "\<not> closed shelf" "\<not> int64 9223372036854775808"
    by (simp_all add: shelf_books int64_def)
  then have "update_book shelf 9223372036854775808 (Some ''Updated Title'') None (Some 2024)
      None None = (shelf, Inl overflow_error)"
    by (rule update_book_bad_id)
  then show ?thesis by (simp add: shelf_books)
qed

text \<open>
  Claim C2, as the code has it. When \<^verbatim>\<open>get_book_by_id\<close> finds the row \<open>cur\<close> and the year
  to be written fits into 64 bits, \<^verbatim>\<open>update_book\<close> writes \<open>merge_fields cur\<close>: each omitted
  field with the value \<open>cur\<close> stores, each supplied field with the new value, all five in
  the one UPDATE, which replaces the row of that id and no other; the row read back is the
  merged one. The statement is not carried out only when the merged isbn belongs to
  another row. When the year does not fit, the UPDATE raises \<^verbatim>\<open>OverflowError\<close> and
  nothing is written. The book (``Original Title'', ``Original Author'', 2000) updated
  with title ``Updated Title'' and year 2024 reads back as (``Updated Title'', ``Original
  Author'', 2024).
\<close>

theorem update_book_merges:
  "(get_book_by_id s bid = Inr (Some cur) \<and> bindable (year (merge_fields cur t a y i g)) \<longrightarrow>
      (if isbn_taken (filter (\<lambda>r. book_id r \<noteq> bid) (books s))
            (isbn (merge_fields cur t a y i g))
       then update_book s bid t a y i g
            = (py_print s ''Error: UNIQUE constraint failed: books.isbn'', Inr False)
       else (\<exists>s'. update_book s bid t a y i g = (s', Inr True)
            \<and> books s' = map (\<lambda>r. if book_id r = bid then merge_fields cur t a y i g else r)
                            (books s)
            \<and> get_book_by_id s' bid = Inr (Some (merge_fields cur t a y i g)))))
   \<and> (get_book_by_id s bid = Inr (Some cur) \<and> \<not> bindable (year (merge_fields cur t a y i g))
        \<longrightarrow> update_book s bid t a y i g = (s, Inl overflow_error))
   \<and> snd (add_book init ''Original Title'' ''Original Author'' (Some 2000) None None) = Inr 1
   \<and> snd (update_book original 1 (Some ''Updated Title'') None (Some 2024) None None) = Inr True
   \<and> get_book_by_id
        (fst (update_book original 1 (Some ''Updated Title'') None (Some 2024) None None)) 1
      = Inr (Some \<lparr>book_id = 1, title = ''Updated Title'', author = ''Original Author'',
                   year = Some 2024, isbn = None, genre = None\<rparr>)"
proof (intro conjI impI)
  assume "get_book_by_id s bid = Inr (Some cur) \<and> bindable (year (merge_fields cur t a y i g))"
  then have g: "get_book_by_id s bid = Inr (Some cur)"
    and b: "bindable (year (merge_fields cur t a y i g))" by simp_all
  let ?m = "merge_fields cur t a y i g"
  have "book_id ?m = bid"
    using get_book_by_id_found(3) [OF g] by (simp add: merge_fields_def)
  with g have "get_book_by_id
      (s\<lparr>books := map (\<lambda>r. if book_id r = bid then ?m else r) (books s)\<rparr>) bid = Inr (Some ?m)"
    by (rule get_book_by_id_updated)
  with b update_book_found [OF g, of t a y i g]
  show "if isbn_taken (filter (\<lambda>r. book_id r \<noteq> bid) (books s)) (isbn ?m)
       then update_book s bid t a y i g
            = (py_print s ''Error: UNIQUE constraint failed: books.isbn'', Inr False)
       else (\<exists>s'. update_book s bid t a y i g = (s', Inr True)
            \<and> books s' = map (\<lambda>r. if book_id r = bid then ?m else r) (books s)
            \<and> get_book_by_id s' bid = Inr (Some ?m))"
    by simp
next
  assume "get_book_by_id s bid = Inr (Some cur)
    \<and> \<not> bindable (year (merge_fields cur t a y i g))"
  then show "update_book s bid t a y i g = (s, Inl overflow_error)"
    using update_book_found [of s bid cur t a y i g] by simp
next
  show "snd (add_book init ''Original Title'' ''Original Author'' (Some 2000) None None) = Inr 1"
    by (simp add: add_book_def execute_insert_def init_def isbn_taken_def next_rowid_def
        bindable_def int64_def)
next
  have u: "update_book original 1 (Some ''Updated Title'') None (Some 2024) None None
     = (original\<lparr>books := [\<lparr>book_id = 1, title = ''Updated Title'', author = ''Original Author'',
                   year = Some 2024, isbn = None, genre = None\<rparr>]\<rparr>, Inr True)"
    by (simp add: update_book_found [OF original_get] isbn_taken_def isbn_merge_fields
          year_merge_fields bindable_def int64_def)
       (simp add: original_books merge_fields_def)
  show "snd (update_book original 1 (Some ''Updated Title'') None (Some 2024) None None) = Inr True"
    by (simp add: u)
  show "get_book_by_id
        (fst (update_book original 1 (Some ''Updated Title'') None (Some 2024) None None)) 1
      = Inr (Some \<lparr>book_id = 1, title = ''Updated Title'', author = ''Original Author'',
                   year = Some 2024, isbn = None, genre = None\<rparr>)"
    unfolding u fst_conv by (simp add: get_book_by_id_outcomes original_books int64_def)
qed

theorem update_book_merges_witness:
  "get_book_by_id two_books 2
     = Inr (Some \<lparr>book_id = 2, title = ''Second Book'', author = ''Other Author'', year = None,
                  isbn = Some ''978-0000000000'', genre = None\<rparr>)
   \<and> snd (update_book two_books 2 None (Some ''Renamed Author'') (Some 1999) None None) = Inr True
   \<and> get_book_by_id
        (fst (update_book two_books 2 None (Some ''Renamed Author'') (Some 1999) None None)) 2
     = Inr (Some \<lparr>book_id = 2, title = ''Second Book'', author = ''Renamed Author'',
                  year = Some 1999, isbn = Some ''978-0000000000'', genre = None\<rparr>)
   \<and> update_book two_books 2 None None (Some (- 9223372036854775809)) None None
     = (two_books, Inl overflow_error)"
proof -
  let ?cur = "\<lparr>book_id = 2, title = ''Second Book'', author = ''Other Author'', year = None,
                  isbn = Some ''978-0000000000'', genre = None\<rparr>"
  have g: "get_book_by_id two_books 2 = Inr (Some ?cur)"
    by (simp add: two_books_books get_book_by_id_outcomes int64_def)
  have free: "\<not> isbn_taken (filter (\<lambda>r. book_id r \<noteq> 2) (books two_books))
      (isbn (merge_fields ?cur None (Some ''Renamed Author'') (Some 1999) None None))"
    by (simp add: two_books_books merge_fields_def isbn_taken_def)
  have fits: "bindable (year (merge_fields ?cur None (Some ''Renamed Author'') (Some 1999) None None))"
    by (simp add: merge_fields_def bindable_def int64_def)
  have m: "merge_fields ?cur None (Some ''Renamed Author'') (Some 1999) None None
     = \<lparr>book_id = 2, title = ''Second Book'', author = ''Renamed Author'',
                  year = Some 1999, isbn = Some ''978-0000000000'', genre = None\<rparr>"
    by (simp add: merge_fields_def)
  from update_book_merges [of two_books 2 ?cur None "Some ''Renamed Author''" "Some 1999" None None]
    g free fits
  obtain s' where
    "update_book two_books 2 None (Some ''Renamed Author'') (Some 1999) None None = (s', Inr True)"
    "get_book_by_id s' 2
      = Inr (Some (merge_fields ?cur None (Some ''Renamed Author'') (Some 1999) None None))"
    by auto
  moreover have "\<not> bindable (year (merge_fields ?cur None None (Some (- 9223372036854775809))
      None None))"
    by (simp add: merge_fields_def bindable_def int64_def)
  with update_book_merges [of two_books 2 ?cur None None "Some (- 9223372036854775809)" None None] g
  have "update_book two_books 2 None None (Some (- 9223372036854775809)) None None
     = (two_books, Inl overflow_error)"
    by simp
  ultimately show ?thesis using g m by simp
qed

text \<open>
  Claim C2 as stated fails for a supplied year beyond the 64-bit range: the book exists,
  the UPDATE raises \<^verbatim>\<open>OverflowError\<close>, and neither the new title nor the new year is
  written.
\<close>

theorem update_book_merges_counterexample:
  "get_book_by_id original 1
     = Inr (Some \<lparr>book_id = 1, title = ''Original Title'', author = ''Original Author'',
                  year = Some 2000, isbn = None, genre = None\<rparr>)
   \<and> update_book original 1 (Some ''Updated Title'') None (Some 9223372036854775808) None None
     = (original, Inl overflow_error)"
proof -
  have "update_book original 1 (Some ''Updated Title'') None (Some 9223372036854775808) None None
     = (original, Inl overflow_error)"
    by (simp add: update_book_found [OF original_get] year_merge_fields bindable_def int64_def)
  with original_get show ?thesis by simp
qed

text \<open>
  Claim C1, as the code has it. On an open store that has an id left to hand out,
  \<^verbatim>\<open>add_book\<close> with a year that is absent or fits into 64 bits and an isbn that is not
  null and that a row already holds inserts nothing: table and id counter stay as they
  are, one line is printed, and the method returns the integer \<open>- 1\<close>. Under the same
  conditions an add whose isbn is absent or new returns an id of at least 1 and makes the
  table one row longer, so the reserved value \<open>- 1\<close> is how the caller tells the two
  apart. A year that does not fit raises \<^verbatim>\<open>OverflowError\<close>, and a table without an id
  left raises \<^verbatim>\<open>OperationalError\<close>, whatever the isbn; both reach the caller and leave
  the manager as it was.
\<close>

theorem add_book_duplicate_isbn:
  "(\<not> closed s \<and> bindable y \<and> int64 (next_rowid s)
      \<and> list_ex (\<lambda>r. isbn r = Some v) (books s) \<longrightarrow>
      add_book s t a y (Some v) g
        = (s\<lparr>stdout := stdout s @ [''Error: UNIQUE constraint failed: books.isbn'']\<rparr>, Inr (- 1)))
   \<and> (\<not> closed s \<and> bindable y \<and> int64 (next_rowid s) \<and> \<not> isbn_taken (books s) i \<longrightarrow>
        (\<exists>n. snd (add_book s t a y i g) = Inr n \<and> 1 \<le> n
           \<and> length (books (fst (add_book s t a y i g))) = Suc (length (books s))))
   \<and> (\<not> closed s \<and> \<not> bindable y \<longrightarrow> add_book s t a y i g = (s, Inl overflow_error))
   \<and> (\<not> closed s \<and> bindable y \<and> \<not> int64 (next_rowid s) \<longrightarrow>
        add_book s t a y i g = (s, Inl full_error))"
proof (intro conjI impI)
  assume "\<not> closed s \<and> bindable y \<and> int64 (next_rowid s)
      \<and> list_ex (\<lambda>r. isbn r = Some v) (books s)"
  then have "\<not> closed s" "bindable y" "int64 (next_rowid s)" "isbn_taken (books s) (Some v)"
    by (simp_all add: isbn_taken_def)
  then show "add_book s t a y (Some v) g
        = (s\<lparr>stdout := stdout s @ [''Error: UNIQUE constraint failed: books.isbn'']\<rparr>, Inr (- 1))"
    by (simp add: add_book_rejected py_print_def)
next
  assume "\<not> closed s \<and> bindable y \<and> int64 (next_rowid s) \<and> \<not> isbn_taken (books s) i"
  then show "\<exists>n. snd (add_book s t a y i g) = Inr n \<and> 1 \<le> n
           \<and> length (books (fst (add_book s t a y i g))) = Suc (length (books s))"
    by (simp add: add_book_inserted next_rowid_pos)
next
  assume "\<not> closed s \<and> \<not> bindable y"
  then show "add_book s t a y i g = (s, Inl overflow_error)"
    by (simp add: add_book_overflow)
next
  assume "\<not> closed s \<and> bindable y \<and> \<not> int64 (next_rowid s)"
  then show "add_book s t a y i g = (s, Inl full_error)"
    by (simp add: add_book_full)
qed

theorem add_book_duplicate_isbn_witness:
  "\<not> closed one_book \<and> bindable None \<and> int64 (next_rowid one_book)
   \<and> list_ex (\<lambda>r. isbn r = Some ''978-1234567890'') (books one_book)
   \<and> add_book one_book ''Another Book'' ''Another Author'' None (Some ''978-1234567890'') None
       = (one_book\<lparr>stdout := [''Error: UNIQUE constraint failed: books.isbn'']\<rparr>, Inr (- 1))
   \<and> \<not> isbn_taken (books one_book) (Some ''978-0000000000'')
   \<and> snd (add_book one_book ''Second Book'' ''Other Author'' None (Some ''978-0000000000'') None)
       = Inr 2
   \<and> \<not> bindable (Some 9223372036854775808)
   \<and> add_book one_book ''Late Book'' ''Late Author'' (Some 9223372036854775808) None None
       = (one_book, Inl overflow_error)"
proof -
  have h: "\<not> closed one_book" "bindable None" "int64 (next_rowid one_book)"
    "list_ex (\<lambda>r. isbn r = Some ''978-1234567890'') (books one_book)"
    "\<not> isbn_taken (books one_book) (Some ''978-0000000000'')"
    "\<not> bindable (Some 9223372036854775808)"
    by (simp_all add: one_book_books isbn_taken_def bindable_def next_rowid_def int64_def)
  have e: "stdout one_book = []" by (simp add: one_book_books)
  from add_book_duplicate_isbn [of one_book None "''978-1234567890''" "''Another Book''"
      "''Another Author''" None] h(1-4) e
  have r: "add_book one_book ''Another Book'' ''Another Author'' None (Some ''978-1234567890'') None
       = (one_book\<lparr>stdout := [''Error: UNIQUE constraint failed: books.isbn'']\<rparr>, Inr (- 1))"
    by simp
  from add_book_duplicate_isbn [of one_book "Some 9223372036854775808" _ "''Late Book''"
      "''Late Author''" None None] h(1) h(6)
  have o: "add_book one_book ''Late Book'' ''Late Author'' (Some 9223372036854775808) None None
       = (one_book, Inl overflow_error)"
    by simp
  have "snd (add_book one_book ''Second Book'' ''Other Author'' None (Some ''978-0000000000'') None)
       = Inr 2"
    by (simp add: add_book_inserted [OF h(1) h(2) h(3) h(5)])
       (simp add: next_rowid_def one_book_books)
  with h r o show ?thesis by simp
qed

text \<open>
  Claim C1 as stated fails three times over. The rejected add returns normally, with the
  number \<open>- 1\<close> where an id would be, and raises nothing; an add without isbn into a table
  that has a row without isbn, the same (absent) isbn, is carried out; and with a year
  beyond the 64-bit range the taken isbn is never looked at, the add raises
  \<^verbatim>\<open>OverflowError\<close>.
\<close>

theorem add_book_duplicate_isbn_counterexample:
  "snd (add_book one_book ''Another Book'' ''Another Author'' None (Some ''978-1234567890'') None)
     = Inr (- 1)
   \<and> map isbn (books original) = [None]
   \<and> map isbn (books (fst (add_book original ''Another Book'' ''Another Author'' None None None)))
     = [None, None]
   \<and> snd (add_book one_book ''Another Book'' ''Another Author'' (Some 9223372036854775808)
        (Some ''978-1234567890'') None)
     = Inl overflow_error"
proof -
  have "\<not> closed one_book" "bindable None" "int64 (next_rowid one_book)"
    "isbn_taken (books one_book) (Some ''978-1234567890'')"
    by (simp_all add: one_book_books isbn_taken_def bindable_def next_rowid_def int64_def)
  then have "snd (add_book one_book ''Another Book'' ''Another Author'' None
      (Some ''978-1234567890'') None) = Inr (- 1)"
    by (simp add: add_book_rejected)
  moreover have "\<not> closed original" "bindable None" "int64 (next_rowid original)"
    "\<not> isbn_taken (books original) None"
    by (simp_all add: original_books isbn_taken_def bindable_def next_rowid_def int64_def)
  then have "map isbn (books (fst (add_book original ''Another Book'' ''Another Author''
      None None None))) = [None, None]"
    by (simp add: add_book_inserted) (simp add: original_books)
  moreover have "\<not> closed one_book" "\<not> bindable (Some 9223372036854775808)"
    by (simp_all add: one_book_books bindable_def int64_def)
  then have "snd (add_book one_book ''Another Book'' ''Another Author''
      (Some 9223372036854775808) (Some ''978-1234567890'') None) = Inl overflow_error"
    by (simp add: add_book_overflow)
  ultimately show ?thesis by (simp add: original_books)
qed

text \<open>
  Claim C4 as stated fails: \<^verbatim>\<open>update_book\<close> with the isbn of another row catches the
  \<^verbatim>\<open>IntegrityError\<close>, prints a line and returns \<^verbatim>\<open>False\<close>, the value it also returns
  for an id that does not exist.
\<close>

theorem integrity_error_printed_counterexample:
  "update_book two_books 2 None None None (Some ''978-1234567890'') None
     = (two_books\<lparr>stdout := [''Error: UNIQUE constraint failed: books.isbn'']\<rparr>, Inr False)"
proof -
  have g: "get_book_by_id two_books 2 = Inr (Some (books two_books ! 1))"
    by (simp add: two_books_books get_book_by_id_outcomes int64_def)
  show ?thesis
    by (simp add: update_book_found [OF g] isbn_merge_fields year_merge_fields)
       (simp add: two_books_books isbn_taken_def py_print_def bindable_def)
qed

lemma delete_book_outcomes:
  "delete_book s bid =
    (if closed s then (s, Inl closed_error)
     else if \<not> int64 bid then (s, Inl overflow_error)
     else (s\<lparr>books := filter (\<lambda>r. book_id r \<noteq> bid) (books s)\<rparr>,
           Inr (0 < length (filter (\<lambda>r. book_id r = bid) (books s)))))"
  by (simp add: delete_book_def execute_delete_def)

lemma search_books_too_long:
  assumes "\<not> closed s" "books s \<noteq> []" "50000 < length pat + 2"
  shows "search_books s pat = Inl like_error"
proof (cases "books s")
  case Nil
  with assms(2) show ?thesis by simp
next
  case (Cons r rs)
  with assms(1,3) show ?thesis
    by (simp add: search_books_def execute_select_def sql_like_def Let_def)
qed

lemma update_book_escapes:
  "snd (update_book s bid t a y i g) = Inl e \<Longrightarrow> fst (update_book s bid t a y i g) = s"
proof (cases "get_book_by_id s bid")
  case (Inl e')
  then show ?thesis by (simp add: update_book_def)
next
  case (Inr found)
  assume e: "snd (update_book s bid t a y i g) = Inl e"
  show ?thesis
  proof (cases found)
    case None
    with Inr show ?thesis by (simp add: update_book_def)
  next
    case (Some cur)
    with Inr have g: "get_book_by_id s bid = Inr (Some cur)" by simp
    from e show ?thesis by (simp add: update_book_found [OF g] split: if_splits)
  qed
qed

text \<open>
  Claim C4, as the code has it. On a closed store each of the seven operations lets the
  \<^verbatim>\<open>ProgrammingError\<close> through to the caller. On an open store an integer that does not
  fit into 64 bits (a year for \<^verbatim>\<open>add_book\<close> and \<^verbatim>\<open>update_book\<close>, an id for
  \<^verbatim>\<open>get_book_by_id\<close>, \<^verbatim>\<open>update_book\<close> and \<^verbatim>\<open>delete_book\<close>) raises \<^verbatim>\<open>OverflowError\<close>, an
  add into a table without an id left and a search with a pattern of more than 50000
  bytes in a table that has a row raise \<^verbatim>\<open>OperationalError\<close>; all of these reach the
  caller, and whenever an exception leaves \<^verbatim>\<open>add_book\<close>, \<^verbatim>\<open>update_book\<close> or
  \<^verbatim>\<open>delete_book\<close> the manager is as it was, nothing printed. The violated isbn constraint
  alone is handled inside: \<^verbatim>\<open>add_book\<close> prints one line and returns \<open>- 1\<close>,
  \<^verbatim>\<open>update_book\<close> prints the same line and returns \<^verbatim>\<open>False\<close>. A call that succeeds or
  finds no book prints nothing; the four reading operations have no output at all.
\<close>

theorem failures_propagate_or_print:
  "(closed s \<longrightarrow>
      add_book s t a y i g = (s, Inl closed_error)
      \<and> update_book s bid t' a' y i g = (s, Inl closed_error)
      \<and> delete_book s bid = (s, Inl closed_error)
      \<and> get_all_books s = Inl closed_error
      \<and> get_book_by_id s bid = Inl closed_error
      \<and> search_books s pat = Inl closed_error
      \<and> get_books_by_genre s gn = Inl closed_error)
   \<and> (\<not> closed s \<and> \<not> bindable y \<longrightarrow> add_book s t a y i g = (s, Inl overflow_error))
   \<and> (\<not> closed s \<and> bindable y \<and> \<not> int64 (next_rowid s) \<longrightarrow>
        add_book s t a y i g = (s, Inl full_error))
   \<and> (\<not> closed s \<and> bindable y \<and> int64 (next_rowid s) \<and> isbn_taken (books s) i \<longrightarrow>
        add_book s t a y i g
          = (py_print s ''Error: UNIQUE constraint failed: books.isbn'', Inr (- 1)))
   \<and> (\<not> closed s \<and> bindable y \<and> int64 (next_rowid s) \<and> \<not> isbn_taken (books s) i \<longrightarrow>
        snd (add_book s t a y i g) = Inr (next_rowid s)
        \<and> stdout (fst (add_book s t a y i g)) = stdout s)
   \<and> (\<not> closed s \<and> \<not> int64 bid \<longrightarrow>
        update_book s bid t' a' y i g = (s, Inl overflow_error)
        \<and> delete_book s bid = (s, Inl overflow_error)
        \<and> get_book_by_id s bid = Inl overflow_error)
   \<and> (get_book_by_id s bid = Inr None \<longrightarrow> update_book s bid t' a' y i g = (s, Inr False))
   \<and> (get_book_by_id s bid = Inr (Some cur)
        \<and> \<not> bindable (year (merge_fields cur t' a' y i g)) \<longrightarrow>
        update_book s bid t' a' y i g = (s, Inl overflow_error))
   \<and> (get_book_by_id s bid = Inr (Some cur)
        \<and> bindable (year (merge_fields cur t' a' y i g))
        \<and> isbn_taken (filter (\<lambda>r. book_id r \<noteq> bid) (books s))
              (isbn (merge_fields cur t' a' y i g)) \<longrightarrow>
        update_book s bid t' a' y i g
          = (py_print s ''Error: UNIQUE constraint failed: books.isbn'', Inr False))
   \<and> (get_book_by_id s bid = Inr (Some cur)
        \<and> bindable (year (merge_fields cur t' a' y i g))
        \<and> \<not> isbn_taken (filter (\<lambda>r. book_id r \<noteq> bid) (books s))
              (isbn (merge_fields cur t' a' y i g)) \<longrightarrow>
        snd (update_book s bid t' a' y i g) = Inr True
        \<and> stdout (fst (update_book s bid t' a' y i g)) = stdout s)
   \<and> (\<not> closed s \<and> int64 bid \<longrightarrow>
        snd (delete_book s bid) = Inr (list_ex (\<lambda>r. book_id r = bid) (books s))
        \<and> stdout (fst (delete_book s bid)) = stdout s)
   \<and> (\<not> closed s \<and> books s \<noteq> [] \<and> 50000 < length pat + 2 \<longrightarrow>
        search_books s pat = Inl like_error)
   \<and> (snd (add_book s t a y i g) = Inl e \<longrightarrow> fst (add_book s t a y i g) = s)
   \<and> (snd (update_book s bid t' a' y i g) = Inl e \<longrightarrow> fst (update_book s bid t' a' y i g) = s)
   \<and> (snd (delete_book s bid) = Inl e \<longrightarrow> fst (delete_book s bid) = s)"
proof -
  have c: "add_book s t a y i g = (s, Inl closed_error)
      \<and> update_book s bid t' a' y i g = (s, Inl closed_error)
      \<and> delete_book s bid = (s, Inl closed_error)
      \<and> get_all_books s = Inl closed_error
      \<and> get_book_by_id s bid = Inl closed_error
      \<and> search_books s pat = Inl closed_error
      \<and> get_books_by_genre s gn = Inl closed_error" if "closed s"
    using that
    by (simp add: add_book_closed update_book_closed delete_book_outcomes get_all_books_def
        get_book_by_id_outcomes search_books_def get_books_by_genre_def execute_select_closed)
  have a1: "add_book s t a y i g = (s, Inl overflow_error)" if "\<not> closed s \<and> \<not> bindable y"
    using that by (simp add: add_book_overflow)
  have a2: "add_book s t a y i g = (s, Inl full_error)"
    if "\<not> closed s \<and> bindable y \<and> \<not> int64 (next_rowid s)"
    using that by (simp add: add_book_full)
  have a3: "add_book s t a y i g
          = (py_print s ''Error: UNIQUE constraint failed: books.isbn'', Inr (- 1))"
    if "\<not> closed s \<and> bindable y \<and> int64 (next_rowid s) \<and> isbn_taken (books s) i"
    using that by (simp add: add_book_rejected)
  have a4: "snd (add_book s t a y i g) = Inr (next_rowid s)
        \<and> stdout (fst (add_book s t a y i g)) = stdout s"
    if "\<not> closed s \<and> bindable y \<and> int64 (next_rowid s) \<and> \<not> isbn_taken (books s) i"
    using that by (simp add: add_book_inserted)
  have b: "update_book s bid t' a' y i g = (s, Inl overflow_error)
        \<and> delete_book s bid = (s, Inl overflow_error)
        \<and> get_book_by_id s bid = Inl overflow_error" if "\<not> closed s \<and> \<not> int64 bid"
    using that by (simp add: update_book_bad_id delete_book_outcomes get_book_by_id_outcomes)
  have u0: "update_book s bid t' a' y i g = (s, Inr False)" if "get_book_by_id s bid = Inr None"
    using that by (simp add: update_book_def)
  have u1: "update_book s bid t' a' y i g = (s, Inl overflow_error)"
    if "get_book_by_id s bid = Inr (Some cur)
        \<and> \<not> bindable (year (merge_fields cur t' a' y i g))"
    using that update_book_found [of s bid cur t' a' y i g] by simp
  have u2: "update_book s bid t' a' y i g
          = (py_print s ''Error: UNIQUE constraint failed: books.isbn'', Inr False)"
    if "get_book_by_id s bid = Inr (Some cur)
        \<and> bindable (year (merge_fields cur t' a' y i g))
        \<and> isbn_taken (filter (\<lambda>r. book_id r \<noteq> bid) (books s))
              (isbn (merge_fields cur t' a' y i g))"
    using that update_book_found [of s bid cur t' a' y i g] by simp
  have u3: "snd (update_book s bid t' a' y i g) = Inr True
        \<and> stdout (fst (update_book s bid t' a' y i g)) = stdout s"
    if "get_book_by_id s bid = Inr (Some cur)
        \<and> bindable (year (merge_fields cur t' a' y i g))
        \<and> \<not> isbn_taken (filter (\<lambda>r. book_id r \<noteq> bid) (books s))
              (isbn (merge_fields cur t' a' y i g))"
    using that update_book_found [of s bid cur t' a' y i g] by simp
  have d: "snd (delete_book s bid) = Inr (list_ex (\<lambda>r. book_id r = bid) (books s))
        \<and> stdout (fst (delete_book s bid)) = stdout s" if "\<not> closed s \<and> int64 bid"
    using that by (auto simp: delete_book_outcomes list_ex_iff filter_empty_conv)
  have l: "search_books s pat = Inl like_error"
    if "\<not> closed s \<and> books s \<noteq> [] \<and> 50000 < length pat + 2"
    using that by (simp add: search_books_too_long)
  have e1: "fst (add_book s t a y i g) = s" if "snd (add_book s t a y i g) = Inl e"
    using that by (simp add: add_book_outcomes split: if_splits)
  have e2: "fst (update_book s bid t' a' y i g) = s"
    if "snd (update_book s bid t' a' y i g) = Inl e"
    using that by (rule update_book_escapes)
  have e3: "fst (delete_book s bid) = s" if "snd (delete_book s bid) = Inl e"
    using that by (simp add: delete_book_outcomes split: if_splits)
  from c a1 a2 a3 a4 b u0 u1 u2 u3 d l e1 e2 e3 show ?thesis by blast
qed

theorem failures_propagate_or_print_witness:
  "closed (close shelf)
   \<and> add_book (close shelf) ''A'' ''B'' None None None = (close shelf, Inl closed_error)
   \<and> get_all_books (close shelf) = Inl closed_error
   \<and> \<not> closed one_book \<and> bindable None \<and> int64 (next_rowid one_book)
   \<and> isbn_taken (books one_book) (Some ''978-1234567890'')
   \<and> add_book one_book ''A'' ''B'' None (Some ''978-1234567890'') None
       = (py_print one_book ''Error: UNIQUE constraint failed: books.isbn'', Inr (- 1))
   \<and> \<not> bindable (Some 9223372036854775808)
   \<and> add_book one_book ''A'' ''B'' (Some 9223372036854775808) None None
       = (one_book, Inl overflow_error)
   \<and> \<not> int64 9223372036854775808
   \<and> delete_book one_book 9223372036854775808 = (one_book, Inl overflow_error)"
proof -
  have c: "closed (close shelf)" by (simp add: close_def)
  have o: "\<not> closed one_book" "bindable None" "int64 (next_rowid one_book)"
    "isbn_taken (books one_book) (Some ''978-1234567890'')"
    "\<not> bindable (Some 9223372036854775808)" "\<not> int64 9223372036854775808"
    by (simp_all add: one_book_books isbn_taken_def bindable_def next_rowid_def int64_def)
  from failures_propagate_or_print [of "close shelf" "''A''" "''B''" None None None] c
  have 1: "add_book (close shelf) ''A'' ''B'' None None None = (close shelf, Inl closed_error)"
    "get_all_books (close shelf) = Inl closed_error"
    by simp_all
  from failures_propagate_or_print [of one_book "''A''" "''B''" None "Some ''978-1234567890''" None] o
  have 2: "add_book one_book ''A'' ''B'' None (Some ''978-1234567890'') None
       = (py_print one_book ''Error: UNIQUE constraint failed: books.isbn'', Inr (- 1))"
    by simp
  from failures_propagate_or_print [of one_book "''A''" "''B''" "Some 9223372036854775808" None None
      9223372036854775808] o
  have 3: "add_book one_book ''A'' ''B'' (Some 9223372036854775808) None None
       = (one_book, Inl overflow_error)"
    "delete_book one_book 9223372036854775808 = (one_book, Inl overflow_error)"
    by simp_all
  from c o 1 2 3 show ?thesis by simp
qed
















end
